theory Spec2Isabelle
  imports Complex_Main "HOL-Library.AList"
begin

section \<open>The poller (serverstf/poll.py)\<close>

subsection \<open>Data of the poller\<close>

text \<open>
  Modelled from the spec: \<open>serverstf.cache.Address\<close>, an immutable pair of an IP address
  and a port with equality by value; the module \<open>serverstf.cache\<close> is not among the
  sources.
\<close>

record address =
  ip :: string
  port :: nat

text \<open>
  The three A2S responses as \<open>poll\<close> reads them: the fields of the info response that
  it indexes, the entries of \<open>players["players"]\<close>, and the rules, which it only hands to
  the tagger.
\<close>

record info =
  server_name :: string
  info_map :: string
  app_id :: int
  player_count :: int
  max_players :: int
  bot_count :: int

text \<open>
  A2S sends the time a player has been connected as a 32-bit float, which Python reads as
  a \<open>float\<close>: a rational number, an infinity or a NaN.
\<close>

datatype pyfloat = Finite rat | PlusInfinity | MinusInfinity | NaN

record entry =
  entry_name :: string
  entry_score :: int
  entry_duration :: pyfloat

record players_response =
  players_entries :: "entry list"

type_synonym rules = "(string \<times> string) list"

text \<open>
  \<open>datetime.timedelta\<close>: a time span is a whole number of microseconds; its days, seconds
  and microseconds are the digits of that number.
\<close>

datatype timedelta = Timedelta (microseconds: int)

text \<open>What \<open>geoip.city(ip)\<close> returns, as far as \<open>poll\<close> reads it.\<close>

record location =
  iso_code :: "string option"
  loc_latitude :: "rat option"
  loc_longitude :: "rat option"

text \<open>
  Modelled from the spec: \<open>serverstf.cache.Players\<close> and \<open>serverstf.cache.Status\<close>, the
  records \<open>poll\<close> constructs with keyword arguments.
\<close>

record players =
  current :: int
  players_max :: int
  bots :: int
  scores :: "(string \<times> int \<times> timedelta) list"

record status =
  status_address :: address
  interest :: "nat option"
  status_name :: string
  status_map :: string
  application_id :: int
  status_players :: players
  country :: "string option"
  latitude :: "rat option"
  longitude :: "rat option"
  tags :: "string list"

subsection \<open>Exceptions\<close>

text \<open>
  The errors a \<open>voluptuous\<close> schema collects. \<open>voluptuous.Invalid\<close> carries the list of
  the errors found in the data, in the order of the data, and the required keys found
  missing: the schema keeps those in a Python set, whose order of iteration is not fixed,
  so they are a set here.
\<close>

datatype invalid =
    DictInvalid
  | ExtraKeysNotAllowed string
  | TypeInvalid string
  | ValueInvalid

text \<open>
  Exceptions of the libraries the program calls (python-valve, geoip2, maxminddb, json,
  voluptuous, datetime): the ones the source names or that decide what it does,
  \<open>OtherException\<close> for every other class derived from \<open>Exception\<close>, and
  \<open>OtherBaseException\<close> for the classes that are not (\<open>KeyboardInterrupt\<close>,
  \<open>SystemExit\<close>, \<open>GeneratorExit\<close>, and \<open>asyncio.CancelledError\<close> from Python 3.8 on).
\<close>

datatype lib_error =
    NoResponseError
  | NotImplementedError
  | BrokenMessageError
  | InvalidDatabaseError
  | ValueError string
  | OverflowError
  | Invalid "invalid list" "string set"
  | OtherException string
  | OtherBaseException string

text \<open>
  The three messages of \<open>PollError\<close>: each is a fixed sentence formatted with the
  address, so the exception carries which sentence and the address.
\<close>

datatype poll_kind = Unreachable | Unsupported | BrokenResponse

fun poll_error_message :: "poll_kind \<Rightarrow> string" where
  "poll_error_message Unreachable = ''Timed out waiting for response from {}''"
| "poll_error_message Unsupported = ''Compressed fragments; couldn't poll {}''"
| "poll_error_message BrokenResponse = ''Seemingly broken response from {}''"

text \<open>What propagates out of a function of this program.\<close>

datatype exn =
    PollError poll_kind address
  | MessageError string
  | FatalError lib_error
  | UnboundLocalError string
  | Uncaught lib_error

text \<open>Whether \<open>except Exception\<close> catches it, and whether it is a \<open>MessageError\<close>.\<close>

fun is_Exception :: "exn \<Rightarrow> bool" where
  "is_Exception (Uncaught (OtherBaseException n)) = False"
| "is_Exception e = True"

fun is_MessageError :: "exn \<Rightarrow> bool" where
  "is_MessageError (MessageError m) = True"
| "is_MessageError e = False"

text \<open>
  Modelled from the spec: a handle on the cache, as \<open>Cache.connect\<close> returns it. Each
  handle has a connection of its own, numbered in the order the connections are opened.
\<close>

datatype cache = Cache (connection: nat)

subsection \<open>Querying a server\<close>

text \<open>
  \<open>valve.source.a2s.ServerQuerier((host, port), timeout)\<close> and its three blocking calls.
  The calls belong to the library: they are parameters of the model.
\<close>

record querier =
  q_host :: string
  q_port :: nat
  q_timeout :: nat

record a2s =
  get_info :: "querier \<Rightarrow> lib_error + info"
  get_players :: "querier \<Rightarrow> lib_error + players_response"
  get_rules :: "querier \<Rightarrow> lib_error + rules"

text \<open>
  What the poller does to the outside, in the order it does it: the log lines, the calls
  to the libraries, and the operations on the cache with the handle they go through.
\<close>

datatype effect =
    LogPolling address
  | GetInfo querier
  | GetPlayers querier
  | GetRules querier
  | TaggerEvaluate
  | GeoipCity string
  | LogCouldntPoll address exn
  | LogInfo string
  | GeoipOpen string
  | GeoipClose
  | Connect cache
  | Disconnect cache
  | Pop cache address
  | AllIterator cache
  | CacheSet cache status

text \<open>The three \<open>except\<close> clauses of \<open>_query_server\<close>; any other exception propagates.\<close>

fun query_except :: "address \<Rightarrow> lib_error \<Rightarrow> exn" where
  "query_except a NoResponseError = PollError Unreachable a"
| "query_except a NotImplementedError = PollError Unsupported a"
| "query_except a BrokenMessageError = PollError BrokenResponse a"
| "query_except a e = Uncaught e"

text \<open>
  \<open>_query_server\<close>: the tuple \<open>query.get_info(), query.get_players(), query.get_rules()\<close>
  is evaluated left to right inside the \<open>try\<close>, so the first call that raises ends it.
\<close>

definition query_server ::
  "a2s \<Rightarrow> address \<Rightarrow> effect list \<times> (exn + info \<times> players_response \<times> rules)" where
  "query_server net a =
     (let query = \<lparr>q_host = ip a, q_port = port a, q_timeout = 5\<rparr> in
      case get_info net query of
        Inl e \<Rightarrow> ([GetInfo query], Inl (query_except a e))
      | Inr i \<Rightarrow>
          (case get_players net query of
             Inl e \<Rightarrow> ([GetInfo query, GetPlayers query], Inl (query_except a e))
           | Inr p \<Rightarrow>
               (case get_rules net query of
                  Inl e \<Rightarrow>
                    ([GetInfo query, GetPlayers query, GetRules query],
                     Inl (query_except a e))
                | Inr r \<Rightarrow>
                    ([GetInfo query, GetPlayers query, GetRules query],
                     Inr (i, p, r)))))"

subsection \<open>Polling one server\<close>

text \<open>
  The tagger and the GeoIP reader are collaborators: \<open>tagger.evaluate\<close> and
  \<open>geoip.city\<close> are parameters, and either may raise. \<open>poll\<close> calls them in this order
  after the three queries, and builds the scores last.
\<close>

type_synonym tagger = "info \<Rightarrow> players_response \<Rightarrow> rules \<Rightarrow> lib_error + string list"

type_synonym geoip = "string \<Rightarrow> lib_error + location"

text \<open>
  \<open>datetime.timedelta(seconds=d)\<close> for a float \<open>d\<close>. A NaN raises \<open>ValueError\<close> and an
  infinity \<open>OverflowError\<close>. A number is rounded to the nearest microsecond, a tie going
  to the even one; for the 32-bit floats of A2S the products of the conversion are exact,
  so this is the rounding of the exact value. A span of more than 999999999 days either
  way raises \<open>OverflowError\<close>.
\<close>

definition round_half_even :: "rat \<Rightarrow> int" where
  "round_half_even x =
     (let f = floor x; d = x - of_int f in
      if d < 1 / 2 then f
      else if 1 / 2 < d then f + 1
      else if even f then f
      else f + 1)"

definition timedelta_seconds :: "pyfloat \<Rightarrow> lib_error + timedelta" where
  "timedelta_seconds d =
     (case d of
        NaN \<Rightarrow> Inl (ValueError ''cannot convert float NaN to integer'')
      | PlusInfinity \<Rightarrow> Inl OverflowError
      | MinusInfinity \<Rightarrow> Inl OverflowError
      | Finite x \<Rightarrow>
          (let us = round_half_even (x * 1000000) in
           if us div 86400000000 < - 999999999 \<or> 999999999 < us div 86400000000
           then Inl OverflowError
           else Inr (Timedelta us)))"

text \<open>
  The loop of \<open>poll\<close> that builds \<open>scores\<close>: an entry with an empty name is skipped, and
  the first duration \<open>timedelta\<close> refuses ends the loop with its exception.
\<close>

fun build_scores :: "entry list \<Rightarrow> lib_error + (string \<times> int \<times> timedelta) list" where
  "build_scores [] = Inr []"
| "build_scores (e # es) =
     (if entry_name e \<noteq> []
      then (case timedelta_seconds (entry_duration e) of
              Inl x \<Rightarrow> Inl x
            | Inr duration \<Rightarrow>
                (case build_scores es of
                   Inl x \<Rightarrow> Inl x
                 | Inr rest \<Rightarrow> Inr ((entry_name e, entry_score e, duration) # rest)))
      else build_scores es)"

definition make_status ::
  "address \<Rightarrow> info \<Rightarrow> (string \<times> int \<times> timedelta) list \<Rightarrow> string list \<Rightarrow> location
   \<Rightarrow> status" where
  "make_status a i player_scores tgs loc =
     \<lparr>status_address = a,
      interest = None,
      status_name = server_name i,
      status_map = info_map i,
      application_id = app_id i,
      status_players =
        \<lparr>current = player_count i,
         players_max = max_players i,
         bots = bot_count i,
         scores = player_scores\<rparr>,
      country = iso_code loc,
      latitude = loc_latitude loc,
      longitude = loc_longitude loc,
      tags = tgs\<rparr>"

definition poll ::
  "a2s \<Rightarrow> tagger \<Rightarrow> geoip \<Rightarrow> address \<Rightarrow> effect list \<times> (exn + status)" where
  "poll net tagger geoip a =
     (case query_server net a of
        (calls, Inl e) \<Rightarrow> (LogPolling a # calls, Inl e)
      | (calls, Inr (i, p, r)) \<Rightarrow>
          (case tagger i p r of
             Inl e \<Rightarrow> (LogPolling a # calls @ [TaggerEvaluate], Inl (Uncaught e))
           | Inr tgs \<Rightarrow>
               (case geoip (ip a) of
                  Inl e \<Rightarrow>
                    (LogPolling a # calls @ [TaggerEvaluate, GeoipCity (ip a)],
                     Inl (Uncaught e))
                | Inr loc \<Rightarrow>
                    (case build_scores (players_entries p) of
                       Inl e \<Rightarrow>
                         (LogPolling a # calls @ [TaggerEvaluate, GeoipCity (ip a)],
                          Inl (Uncaught e))
                     | Inr player_scores \<Rightarrow>
                         (LogPolling a # calls @ [TaggerEvaluate, GeoipCity (ip a)],
                          Inr (make_status a i player_scores tgs loc))))))"

subsection \<open>The cache\<close>

text \<open>
  Modelled from the spec: the store behind every cache handle. The interest queue is a
  FIFO of addresses in which an address stands as many times as there is interest in it;
  the status records are kept by address. \<open>trace\<close> collects the effects in order.
\<close>

record world =
  interest_queue :: "address list"
  statuses :: "(address \<times> status) list"
  connections :: nat
  trace :: "effect list"

definition emit :: "effect list \<Rightarrow> world \<Rightarrow> world" where
  "emit es wd = wd\<lparr>trace := trace wd @ es\<rparr>"

text \<open>Modelled from the spec: \<open>Cache.connect\<close> opens a new connection.\<close>

definition connect :: "world \<Rightarrow> cache \<times> world" where
  "connect wd =
     (let c = Cache (connections wd) in
      (c, emit [Connect c] (wd\<lparr>connections := Suc (connections wd)\<rparr>)))"

datatype cache_error = EmptyQueueError

text \<open>
  Modelled from the spec: \<open>interesting_context()\<close> pops one address, an atomic take and
  remove at the head of the queue, and fails with the empty signal when no entry remains.
\<close>

definition interesting_context :: "cache \<Rightarrow> world \<Rightarrow> cache_error + address \<times> world" where
  "interesting_context c wd =
     (case interest_queue wd of
        [] \<Rightarrow> Inl EmptyQueueError
      | a # q \<Rightarrow> Inr (a, emit [Pop c a] (wd\<lparr>interest_queue := q\<rparr>)))"

text \<open>
  Modelled from the spec: \<open>all_iterator()\<close> is the finite sequence of every address
  currently cached.
\<close>

definition all_iterator :: "cache \<Rightarrow> world \<Rightarrow> address list \<times> world" where
  "all_iterator c wd = (map fst (statuses wd), emit [AllIterator c] wd)"

text \<open>
  Modelled from the spec: \<open>set(status)\<close> stores the record under its address, where it
  replaces the previous one.
\<close>

definition cache_set :: "cache \<Rightarrow> status \<Rightarrow> world \<Rightarrow> world" where
  "cache_set c s wd =
     emit [CacheSet c s]
       (wd\<lparr>statuses := AList.update (status_address s) s (statuses wd)\<rparr>)"

subsection \<open>The scheduler\<close>

text \<open>
  The body of the \<open>for\<close> loop of \<open>_watch\<close>: \<open>PollError\<close> is logged and the loop goes on,
  any other exception leaves the loop, a status is written through \<open>w_cache\<close>.
\<close>

definition watch_body ::
  "a2s \<Rightarrow> tagger \<Rightarrow> geoip \<Rightarrow> cache \<Rightarrow> address \<Rightarrow> world \<Rightarrow> exn option \<times> world" where
  "watch_body net tagger geoip w_cache a wd =
     (case poll net tagger geoip a of
        (es, Inl (PollError k b)) \<Rightarrow>
          (None, emit (es @ [LogCouldntPoll a (PollError k b)]) wd)
      | (es, Inl e) \<Rightarrow> (Some e, emit es wd)
      | (es, Inr s) \<Rightarrow> (None, cache_set w_cache s (emit es wd)))"

text \<open>
  The \<open>for\<close> loop over \<open>_interest_queue_iterator(r_cache)\<close>: the generator pops an address
  and yields it, the body runs, and the generator is resumed for the next pop; it returns
  at \<open>EmptyQueueError\<close>.
\<close>

function interest_pass ::
  "a2s \<Rightarrow> tagger \<Rightarrow> geoip \<Rightarrow> cache \<Rightarrow> cache \<Rightarrow> world \<Rightarrow> exn option \<times> world" where
  "interest_pass net tagger geoip r_cache w_cache wd =
     (case interesting_context r_cache wd of
        Inl EmptyQueueError \<Rightarrow> (None, wd)
      | Inr (a, wd1) \<Rightarrow>
          (case watch_body net tagger geoip w_cache a wd1 of
             (Some e, wd2) \<Rightarrow> (Some e, wd2)
           | (None, wd2) \<Rightarrow> interest_pass net tagger geoip r_cache w_cache wd2))"
  by pat_completeness auto
termination
proof (relation "measure (\<lambda>(net, tagger, geoip, r_cache, w_cache, wd). length (interest_queue wd))")
  show "wf (measure (\<lambda>(net, tagger, geoip, r_cache, w_cache, wd). length (interest_queue wd)))"
    by simp
next
  fix net tagger geoip r_cache w_cache wd x2 a wd1 x y and wd2 :: world
  assume pop: "interesting_context r_cache wd = Inr x2"
    and x2: "(a, wd1) = x2"
    and body: "(x, wd2) = watch_body net tagger geoip w_cache a wd1"
  from pop x2 have "length (interest_queue wd1) < length (interest_queue wd)"
    by (auto simp: interesting_context_def emit_def split: list.splits)
  moreover from body have "interest_queue wd2 = interest_queue wd1"
    by (auto simp: watch_body_def cache_set_def emit_def
             split: prod.splits sum.splits exn.splits)
  ultimately show "((net, tagger, geoip, r_cache, w_cache, wd2),
                    (net, tagger, geoip, r_cache, w_cache, wd))
                   \<in> measure (\<lambda>(net, tagger, geoip, r_cache, w_cache, wd).
                                 length (interest_queue wd))"
    by simp
qed

declare interest_pass.simps [simp del]

text \<open>The \<open>for\<close> loop over the addresses of \<open>r_cache.all_iterator()\<close>.\<close>

fun for_addresses ::
  "a2s \<Rightarrow> tagger \<Rightarrow> geoip \<Rightarrow> cache \<Rightarrow> address list \<Rightarrow> world \<Rightarrow> exn option \<times> world" where
  "for_addresses net tagger geoip w_cache [] wd = (None, wd)"
| "for_addresses net tagger geoip w_cache (a # as) wd =
     (case watch_body net tagger geoip w_cache a wd of
        (Some e, wd1) \<Rightarrow> (Some e, wd1)
      | (None, wd1) \<Rightarrow> for_addresses net tagger geoip w_cache as wd1)"

definition all_pass ::
  "a2s \<Rightarrow> tagger \<Rightarrow> geoip \<Rightarrow> cache \<Rightarrow> cache \<Rightarrow> world \<Rightarrow> exn option \<times> world" where
  "all_pass net tagger geoip r_cache w_cache wd =
     (case all_iterator r_cache wd of
        (addresses, wd1) \<Rightarrow> for_addresses net tagger geoip w_cache addresses wd1)"

text \<open>
  How a call stands when the model stops following it: an exception has left it, it has
  returned, or it is still running.
\<close>

datatype completion = Raised exn | Returned | Running

text \<open>
  The \<open>while True\<close> loop of \<open>_watch\<close>. It has no exit of its own, so the model follows it
  for a given number of rounds: the list holds, for each round, the addresses the
  external producer has appended to the interest queue since the round before.
\<close>

fun watch_loop ::
  "a2s \<Rightarrow> tagger \<Rightarrow> geoip \<Rightarrow> cache \<Rightarrow> cache \<Rightarrow> bool \<Rightarrow> address list list \<Rightarrow> world
   \<Rightarrow> completion \<times> world" where
  "watch_loop net tagger geoip r_cache w_cache all [] wd = (Running, wd)"
| "watch_loop net tagger geoip r_cache w_cache all (produced # later) wd =
     (let wd0 = wd\<lparr>interest_queue := interest_queue wd @ produced\<rparr> in
      case (if all then all_pass net tagger geoip r_cache w_cache wd0
            else interest_pass net tagger geoip r_cache w_cache wd0) of
        (Some e, wd1) \<Rightarrow> (Raised e, wd1)
      | (None, wd1) \<Rightarrow> watch_loop net tagger geoip r_cache w_cache all later wd1)"

definition watch ::
  "a2s \<Rightarrow> tagger \<Rightarrow> cache \<Rightarrow> cache \<Rightarrow> geoip \<Rightarrow> bool \<Rightarrow> address list list \<Rightarrow> world
   \<Rightarrow> completion \<times> world" where
  "watch net scan r_cache w_cache geoip all rounds wd =
     watch_loop net scan geoip r_cache w_cache all rounds
       (emit [LogInfo ''Watching %s; all: %s'', LogInfo ''Writing to %s''] wd)"

subsection \<open>The \<open>poller\<close> subcommand\<close>

record args =
  args_geoip :: string
  args_redis :: string
  args_all :: bool

text \<open>
  \<open>_poller_main\<close>. The local variable \<open>geoip\<close> is bound only when
  \<open>geoip2.database.Reader\<close> returns. The \<open>finally\<close> clause reads it whatever happened
  before: reading it unbound raises \<open>UnboundLocalError\<close>, and an exception raised in a
  \<open>finally\<close> clause replaces the one that was on its way out.
\<close>

definition finally_close :: "geoip option \<Rightarrow> completion \<Rightarrow> world \<Rightarrow> completion \<times> world" where
  "finally_close local_geoip pending wd =
     (case pending of
        Running \<Rightarrow> (Running, wd)
      | _ \<Rightarrow>
          (case local_geoip of
             None \<Rightarrow> (Raised (UnboundLocalError ''geoip''), wd)
           | Some g \<Rightarrow> (pending, emit [GeoipClose] wd)))"

definition poller_main ::
  "a2s \<Rightarrow> tagger \<Rightarrow> (string \<Rightarrow> lib_error + geoip) \<Rightarrow> args \<Rightarrow> address list list \<Rightarrow> world
   \<Rightarrow> completion \<times> world" where
  "poller_main net scan reader args rounds wd =
     (let wd1 = emit [LogInfo ''Starting poller'',
                      LogInfo ''Loading geoip database from %s'',
                      GeoipOpen (args_geoip args)] wd in
      case reader (args_geoip args) of
        Inl InvalidDatabaseError \<Rightarrow>
          finally_close None (Raised (FatalError InvalidDatabaseError)) wd1
      | Inl e \<Rightarrow> finally_close None (Raised (Uncaught e)) wd1
      | Inr g \<Rightarrow>
          (case connect wd1 of
             (r_cache, wd2) \<Rightarrow>
               (case connect wd2 of
                  (w_cache, wd3) \<Rightarrow>
                    (case watch net scan r_cache w_cache g (args_all args) rounds wd3 of
                       (Running, wd4) \<Rightarrow> (Running, wd4)
                     | (pending, wd4) \<Rightarrow>
                         finally_close (Some g) pending
                           (emit [Disconnect w_cache, Disconnect r_cache] wd4)))))"

text \<open>\<open>serverstf.ExitStatus\<close>.\<close>

datatype ExitStatus = OK | FATAL_ERROR | UNEXPECTED_ERROR

fun exit_code :: "ExitStatus \<Rightarrow> int" where
  "exit_code OK = 0"
| "exit_code FATAL_ERROR = 1"
| "exit_code UNEXPECTED_ERROR = 2"

section \<open>The websocket service (serverstf/websocket.py)\<close>

subsection \<open>JSON values and schemas\<close>

text \<open>
  What \<open>json.loads\<close> returns: the Python value of a JSON text. An object is a dictionary,
  kept here as the list of its items in the dictionary's own order.
\<close>

datatype json =
    JNull
  | JBool bool
  | JInt int
  | JFloat rat
  | JStr string
  | JArr "json list"
  | JObj "(string \<times> json) list"

text \<open>
  The value schemas the source uses: \<open>str\<close>, \<open>int\<close> and \<open>lambda x: x\<close>. A type is
  checked with \<open>isinstance\<close>, and a Python \<open>bool\<close> is an \<open>int\<close>.
\<close>

datatype validator = IsStr | IsInt | Identity

fun validate_value :: "validator \<Rightarrow> json \<Rightarrow> bool" where
  "validate_value IsStr (JStr s) = True"
| "validate_value IsInt (JInt n) = True"
| "validate_value IsInt (JBool b) = True"
| "validate_value Identity v = True"
| "validate_value k v = False"

text \<open>
  \<open>voluptuous.Schema({Required(k): v, ...})(data)\<close>: the data must be a dictionary, each
  of its keys must be a key of the schema with a value the key's schema accepts, and no
  key of the schema may be missing. The validated dictionary is built item by item in the
  order of the data.
\<close>

fun item_errors :: "(string \<times> validator) list \<Rightarrow> (string \<times> json) list \<Rightarrow> invalid list" where
  "item_errors schema [] = []"
| "item_errors schema ((k, v) # items) =
     (case map_of schema k of
        None \<Rightarrow> [ExtraKeysNotAllowed k]
      | Some s \<Rightarrow> (if validate_value s v then [] else [TypeInvalid k]))
     @ item_errors schema items"

definition missing_keys :: "(string \<times> validator) list \<Rightarrow> (string \<times> json) list \<Rightarrow> string set" where
  "missing_keys schema items = Set.filter (\<lambda>k. map_of items k = None) (set (map fst schema))"

definition schema_mapping ::
  "(string \<times> validator) list \<Rightarrow> json \<Rightarrow> lib_error + (string \<times> json) list" where
  "schema_mapping schema data =
     (case data of
        JObj items \<Rightarrow>
          (let errors = item_errors schema items; missing = missing_keys schema items
           in if errors = [] \<and> missing = {} then Inr items
              else Inl (Invalid errors missing))
      | _ \<Rightarrow> Inl (Invalid [DictInvalid] {}))"

text \<open>
  The libraries the service calls, as parameters: \<open>json.loads\<close>, \<open>json.dumps\<close>, the text
  of a \<open>voluptuous.Invalid\<close>, and the constructor \<open>serverstf.cache.Address\<close>, whose module
  is not among the sources.
\<close>

record library =
  loads :: "string \<Rightarrow> lib_error + json"
  dumps :: "json \<Rightarrow> string"
  str_invalid :: "invalid list \<Rightarrow> string set \<Rightarrow> string"
  Address :: "json \<Rightarrow> json \<Rightarrow> lib_error + address"

text \<open>
  \<open>address(value)\<close>: the values of the validated dictionary, in the dictionary's order,
  are the positional arguments of \<open>Address\<close>.
\<close>

definition address_schema :: "(string \<times> validator) list" where
  "address_schema = [(''ip'', IsStr), (''port'', IsInt)]"

definition address_of :: "library \<Rightarrow> json \<Rightarrow> lib_error + address" where
  "address_of lib v =
     (case schema_mapping address_schema v of
        Inl e \<Rightarrow> Inl e
      | Inr items \<Rightarrow>
          (case map snd items of
             [x, y] \<Rightarrow> Address lib x y
           | _ \<Rightarrow> Inl (OtherException ''TypeError'')))"

text \<open>
  \<open>voluptuous.Schema(f)(data)\<close> for a callable \<open>f\<close>: a \<open>ValueError\<close> of \<open>f\<close> becomes an
  \<open>Invalid\<close>, an \<open>Invalid\<close> stays one, any other exception passes through.
\<close>

definition schema_callable :: "(json \<Rightarrow> lib_error + 'a) \<Rightarrow> json \<Rightarrow> lib_error + 'a" where
  "schema_callable f data =
     (case f data of
        Inl (ValueError m) \<Rightarrow> Inl (Invalid [ValueInvalid] {})
      | r \<Rightarrow> r)"

subsection \<open>The client\<close>

datatype log_entry =
    LogBadMessage string
  | LogErrorHandling string exn
  | LogNewSubscription address
  | LogHandlingSocket
  | LogSocketFinished
  | LogDropping string
  | LogConnectionClosed

text \<open>
  \<open>Client\<close>: the four attributes \<open>__init__\<close> sets, the frames handed to
  \<open>websocket.send\<close> so far, and what the connection has logged.
\<close>

record client =
  websocket :: nat
  client_cache :: cache
  subscriptions :: "address list"
  send_queue :: "string list"
  websocket_sent :: "string list"
  logged :: "log_entry list"

definition client_init :: "nat \<Rightarrow> cache \<Rightarrow> client" where
  "client_init ws c =
     \<lparr>websocket = ws, client_cache = c, subscriptions = [], send_queue = [],
      websocket_sent = [], logged = []\<rparr>"

definition log_append :: "log_entry \<Rightarrow> client \<Rightarrow> client" where
  "log_append l c = c\<lparr>logged := logged c @ [l]\<rparr>"

text \<open>\<open>Client.send\<close>: the envelope is serialised and put at the end of the queue.\<close>

definition envelope :: "string \<Rightarrow> json \<Rightarrow> json" where
  "envelope type entity = JObj [(''type'', JStr type), (''entity'', entity)]"

definition send :: "library \<Rightarrow> client \<Rightarrow> string \<Rightarrow> json \<Rightarrow> client" where
  "send lib c type entity =
     c\<lparr>send_queue := send_queue c @ [dumps lib (envelope type entity)]\<rparr>"

text \<open>
  The decorator \<open>validate(schema)\<close>: the wrapper raises \<open>MessageError\<close> when the schema
  raises \<open>Invalid\<close>, and calls the handler with the validated entity otherwise.
\<close>

definition validate ::
  "library \<Rightarrow> (json \<Rightarrow> lib_error + 'a) \<Rightarrow> (client \<Rightarrow> 'a \<Rightarrow> exn + client)
   \<Rightarrow> client \<Rightarrow> json \<Rightarrow> exn + client" where
  "validate lib schema function c entity =
     (case schema_callable schema entity of
        Inl (Invalid errors missing) \<Rightarrow>
          Inl (MessageError (''Entity: '' @ str_invalid lib errors missing))
      | Inl e \<Rightarrow> Inl (Uncaught e)
      | Inr validated_entity \<Rightarrow> function c validated_entity)"

definition handle_subscribe_body :: "client \<Rightarrow> address \<Rightarrow> exn + client" where
  "handle_subscribe_body c a = Inr (log_append (LogNewSubscription a) c)"

definition handle_subscribe :: "library \<Rightarrow> client \<Rightarrow> json \<Rightarrow> exn + client" where
  "handle_subscribe lib = validate lib (address_of lib) handle_subscribe_body"

text \<open>
  \<open>getattr(self, "_handle_" + type, None)\<close>: the class has one attribute whose name
  starts with \<open>_handle_\<close>.
\<close>

definition handler :: "library \<Rightarrow> string \<Rightarrow> (client \<Rightarrow> json \<Rightarrow> exn + client) option" where
  "handler lib type = (if type = ''subscribe'' then Some (handle_subscribe lib) else None)"

definition envelope_schema :: "(string \<times> validator) list" where
  "envelope_schema = [(''type'', IsStr), (''entity'', Identity)]"

text \<open>\<open>Client._dispatch\<close>.\<close>

definition dispatch :: "library \<Rightarrow> client \<Rightarrow> string \<Rightarrow> exn + client" where
  "dispatch lib c raw_message =
     (case loads lib raw_message of
        Inl (ValueError m) \<Rightarrow> Inl (MessageError (''JSON: '' @ m))
      | Inl e \<Rightarrow> Inl (Uncaught e)
      | Inr message \<Rightarrow>
          (case schema_mapping envelope_schema message of
             Inl (Invalid errors missing) \<Rightarrow>
               Inl (MessageError (''Envelope: '' @ str_invalid lib errors missing))
           | Inl e \<Rightarrow> Inl (Uncaught e)
           | Inr items \<Rightarrow>
               (case (map_of items ''type'', map_of items ''entity'') of
                  (Some (JStr type), Some entity) \<Rightarrow>
                    (case handler lib type of
                       None \<Rightarrow> Inl (MessageError (''Unknown message type: '' @ type))
                     | Some h \<Rightarrow> h c entity)
                | _ \<Rightarrow> Inl (Uncaught (OtherException ''KeyError'')))))"

text \<open>
  One turn of the loop of \<open>Client._read\<close> on what \<open>websocket.recv()\<close> gave: the loop
  goes on with a client, or \<open>_read\<close> returns, or an exception leaves it. The second
  handler is \<open>except Exception\<close>: an exception of another class is not caught.
\<close>

datatype turn = Goes_on client | Returns | Raises exn

definition read_step :: "library \<Rightarrow> client \<Rightarrow> string option \<Rightarrow> turn" where
  "read_step lib c received =
     (case received of
        None \<Rightarrow> Returns
      | Some raw \<Rightarrow>
          (case dispatch lib c raw of
             Inl (MessageError m) \<Rightarrow>
               Goes_on (send lib (log_append (LogBadMessage m) c) ''error'' (JStr m))
           | Inl e \<Rightarrow>
               (if is_Exception e then Goes_on (log_append (LogErrorHandling raw e) c)
                else Raises e)
           | Inr c1 \<Rightarrow> Goes_on c1))"

text \<open>
  One turn of the loop of \<open>Client._write\<close>: \<open>None\<close> when the queue is empty and the
  duty is suspended in \<open>get\<close>.
\<close>

definition write_step :: "client \<Rightarrow> client option" where
  "write_step c =
     (case send_queue c of
        [] \<Rightarrow> None
      | message # queue \<Rightarrow>
          Some (c\<lparr>send_queue := queue, websocket_sent := websocket_sent c @ [message]\<rparr>))"

text \<open>\<open>_write\<close> run until it is suspended.\<close>

function write_loop :: "client \<Rightarrow> client" where
  "write_loop c = (case write_step c of None \<Rightarrow> c | Some c1 \<Rightarrow> write_loop c1)"
  by pat_completeness auto
termination
  by (relation "measure (\<lambda>c. length (send_queue c))")
     (auto simp: write_step_def split: list.splits)

declare write_loop.simps [simp del]

text \<open>
  \<open>Client.process\<close> on a schedule of the event loop: at each event either the read duty
  is resumed with what \<open>recv\<close> gave, or the write duty is resumed. The two duties run until
  one of them exits. When \<open>_read\<close> returns, \<open>process\<close> logs, cancels both and returns.
  When an exception leaves \<open>_read\<close>, it is of a class \<open>except Exception\<close> does not catch,
  and it leaves \<open>process\<close> too: the event loop re-raises it, or \<open>task.result()\<close> does
  and the \<open>except Exception\<close> of \<open>process\<close> does not catch it either. Which of the two
  happens, and so whether \<open>process\<close> logs its second line before, depends on the class and
  on the version of \<open>asyncio\<close>; the client is given as \<open>_read\<close> left it. The session is
  \<open>OPEN\<close> while \<open>process\<close> waits, \<open>CLOSED\<close> once it has returned and \<open>RAISED\<close> once
  an exception has left it.
\<close>

datatype event = Received "string option" | Flush

datatype state = OPEN | CLOSED | RAISED exn

fun run_duties :: "library \<Rightarrow> event list \<Rightarrow> client \<Rightarrow> state \<times> client" where
  "run_duties lib [] c = (OPEN, c)"
| "run_duties lib (Received received # events) c =
     (case read_step lib c received of
        Returns \<Rightarrow> (CLOSED, log_append LogSocketFinished c)
      | Raises e \<Rightarrow> (RAISED e, c)
      | Goes_on c1 \<Rightarrow> run_duties lib events c1)"
| "run_duties lib (Flush # events) c =
     (case write_step c of
        None \<Rightarrow> run_duties lib events c
      | Some c1 \<Rightarrow> run_duties lib events c1)"

definition process :: "library \<Rightarrow> event list \<Rightarrow> client \<Rightarrow> state \<times> client" where
  "process lib events c = run_duties lib events (log_append LogHandlingSocket c)"

subsection \<open>The service\<close>

definition PATH :: string where
  "PATH = ''/''"

text \<open>
  \<open>Service.__call__\<close>: on another path the handler logs and returns at once, and no
  client exists; otherwise the result is the session's state and its client. The last
  line is logged only when \<open>process\<close> has returned.
\<close>

datatype served = Dropped log_entry | Session state client

definition service_call :: "library \<Rightarrow> cache \<Rightarrow> nat \<Rightarrow> string \<Rightarrow> event list \<Rightarrow> served" where
  "service_call lib service_cache ws path events =
     (if path \<noteq> PATH then Dropped (LogDropping path)
      else
        (case process lib events (client_init ws service_cache) of
           (CLOSED, c) \<Rightarrow> Session CLOSED (log_append LogConnectionClosed c)
         | (st, c) \<Rightarrow> Session st c))"

section \<open>Observations\<close>








text \<open>
  The querier \<open>_query_server\<close> builds for an address, and the exception of the first of
  its three calls that raises, if one does.
\<close>

definition querier_for :: "address \<Rightarrow> querier" where
  "querier_for a = \<lparr>q_host = ip a, q_port = port a, q_timeout = 5\<rparr>"

definition first_failure :: "a2s \<Rightarrow> querier \<Rightarrow> lib_error option" where
  "first_failure net q =
     (case get_info net q of
        Inl e \<Rightarrow> Some e
      | Inr i \<Rightarrow>
          (case get_players net q of
             Inl e \<Rightarrow> Some e
           | Inr p \<Rightarrow> (case get_rules net q of Inl e \<Rightarrow> Some e | Inr r \<Rightarrow> None)))"

text \<open>
  The failures the spec names for a sub-query, with the kind of \<open>PollError\<close> it gives
  to each.
\<close>

fun failure_kind :: "lib_error \<Rightarrow> poll_kind option" where
  "failure_kind NoResponseError = Some Unreachable"
| "failure_kind NotImplementedError = Some Unsupported"
| "failure_kind BrokenMessageError = Some BrokenResponse"
| "failure_kind e = None"



text \<open>
  A schedule of calls of \<open>send\<close> and of turns of the write duty, for the order of
  delivery.
\<close>

datatype action = Send string json | Write

fun run_actions :: "library \<Rightarrow> action list \<Rightarrow> client \<Rightarrow> client" where
  "run_actions lib [] c = c"
| "run_actions lib (Send type entity # acts) c = run_actions lib acts (send lib c type entity)"
| "run_actions lib (Write # acts) c =
     run_actions lib acts (case write_step c of None \<Rightarrow> c | Some c1 \<Rightarrow> c1)"

fun sent_envelopes :: "action list \<Rightarrow> json list" where
  "sent_envelopes [] = []"
| "sent_envelopes (Send type entity # acts) = envelope type entity # sent_envelopes acts"
| "sent_envelopes (Write # acts) = sent_envelopes acts"

section \<open>Example inputs\<close>

text \<open>
  Two servers: the one at \<open>192.0.2.1\<close> answers all three queries and has two players,
  Bob and one who has just joined and has no name yet; the one at \<open>198.51.100.7\<close> never
  answers.
\<close>

definition bob_address :: address where
  "bob_address = \<lparr>ip = ''192.0.2.1'', port = 27015\<rparr>"


definition bob_info :: info where
  "bob_info =
     \<lparr>server_name = ''A server'', info_map = ''cp_badlands'', app_id = 440,
      player_count = 2, max_players = 24, bot_count = 0\<rparr>"

definition bob_players :: players_response where
  "bob_players =
     \<lparr>players_entries =
        [\<lparr>entry_name = [], entry_score = 0, entry_duration = Finite (1 / 128)\<rparr>,
         \<lparr>entry_name = ''Bob'', entry_score = 5, entry_duration = Finite 90\<rparr>]\<rparr>"

definition example_net :: a2s where
  "example_net =
     \<lparr>get_info = (\<lambda>q. if q_host q = ''192.0.2.1'' then Inr bob_info else Inl NoResponseError),
      get_players =
        (\<lambda>q. if q_host q = ''192.0.2.1'' then Inr bob_players else Inl NoResponseError),
      get_rules = (\<lambda>q. if q_host q = ''192.0.2.1'' then Inr [] else Inl NoResponseError)\<rparr>"

definition example_tagger :: tagger where
  "example_tagger i p r = Inr [''tf2'']"

definition example_geoip :: geoip where
  "example_geoip host = Inr \<lparr>iso_code = Some ''GB'', loc_latitude = None, loc_longitude = None\<rparr>"


definition bob_status :: status where
  "bob_status =
     \<lparr>status_address = bob_address, interest = None, status_name = ''A server'',
      status_map = ''cp_badlands'', application_id = 440,
      status_players =
        \<lparr>current = 2, players_max = 24, bots = 0,
         scores = [(''Bob'', 5, Timedelta 90000000)]\<rparr>,
      country = Some ''GB'', latitude = None, longitude = None, tags = [''tf2'']\<rparr>"

definition empty_world :: world where
  "empty_world = \<lparr>interest_queue = [], statuses = [], connections = 0, trace = []\<rparr>"




text \<open>A reader that finds the database invalid, and the arguments of the subcommand.\<close>

definition invalid_reader :: "string \<Rightarrow> lib_error + geoip" where
  "invalid_reader path = Inl InvalidDatabaseError"

definition example_args :: args where
  "example_args = \<lparr>args_geoip = ''GeoLite2-City.mmdb'', args_redis = ''//localhost'', args_all = False\<rparr>"

text \<open>
  A frame of 200000 opening brackets. It is not a JSON text, and \<open>json.loads\<close> does not
  get as far as saying so: it raises \<open>RecursionError\<close>, which is not a \<open>ValueError\<close>.
\<close>

definition nested_frame :: string where
  "nested_frame = replicate 200000 (CHR ''['')"

text \<open>
  A library whose \<open>loads\<close> does what \<open>json.loads\<close> does on the frames of more than
  100000 opening brackets and on five more, which are named here, not spelt out: a
  subscription, an object without \<open>entity\<close>, a message of a type without handler, a
  subscription whose port is a string, and a text that is not JSON. Its \<open>dumps\<close> stands
  for \<open>json.dumps\<close> and renders an envelope with a string entity as the type, a colon and
  the string; its \<open>Address\<close> takes a string and an integer and raises \<open>ValueError\<close>
  otherwise.
\<close>

definition example_loads :: "string \<Rightarrow> lib_error + json" where
  "example_loads raw =
     (if 100000 < length raw \<and> list_all (\<lambda>c. c = CHR ''['') raw
      then Inl (OtherException ''RecursionError'')
      else if raw = ''subscribe frame''
      then Inr (JObj [(''type'', JStr ''subscribe''),
                      (''entity'', JObj [(''ip'', JStr ''192.0.2.1''), (''port'', JInt 27015)])])
      else if raw = ''frame without entity'' then Inr (JObj [(''type'', JStr ''subscribe'')])
      else if raw = ''frame of unknown type''
      then Inr (JObj [(''type'', JStr ''publish''), (''entity'', JNull)])
      else if raw = ''frame with bad entity''
      then Inr (JObj [(''type'', JStr ''subscribe''),
                      (''entity'', JObj [(''ip'', JStr ''192.0.2.1''),
                                         (''port'', JStr ''27015'')])])
      else Inl (ValueError ''Expecting value''))"

definition example_lib :: library where
  "example_lib =
     \<lparr>loads = example_loads,
      dumps = (\<lambda>v. case v of
                 JObj [(k1, JStr t), (k2, JStr m)] \<Rightarrow> t @ '': '' @ m
               | _ \<Rightarrow> ''...''),
      str_invalid = (\<lambda>errors missing. ''invalid''),
      Address = (\<lambda>x y. case (x, y) of
                   (JStr i, JInt p) \<Rightarrow> Inr \<lparr>ip = i, port = nat p\<rparr>
                 | _ \<Rightarrow> Inl (ValueError ''not an address''))\<rparr>"

text \<open>
  The same library on an interpreter that is interrupted while it decodes the frame
  named here: \<open>json.loads\<close> raises \<open>KeyboardInterrupt\<close>, which is not an \<open>Exception\<close>.
\<close>

definition interrupted_lib :: library where
  "interrupted_lib =
     example_lib
       \<lparr>loads := (\<lambda>raw. if raw = ''frame at the interrupt''
                        then Inl (OtherBaseException ''KeyboardInterrupt'')
                        else example_loads raw)\<rparr>"

definition example_client :: client where
  "example_client = client_init 1 (Cache 0)"

section \<open>Properties of the poller\<close>

subsection \<open>Polling one server\<close>

lemma build_scores_Inr:
  "build_scores es = Inr sc \<Longrightarrow>
     map (\<lambda>(n, s, d). (n, s, Inr d)) sc =
       map (\<lambda>e. (entry_name e, entry_score e, timedelta_seconds (entry_duration e)))
           (filter (\<lambda>e. entry_name e \<noteq> []) es)"
  by (induction es arbitrary: sc) (auto split: if_splits sum.splits)

lemma build_scores_total:
  "list_all (\<lambda>e. entry_name e = [] \<or> \<not> isl (timedelta_seconds (entry_duration e))) es \<Longrightarrow>
     \<exists>sc. build_scores es = Inr sc"
  by (induction es) (auto split: sum.splits)

lemma timedelta_90: "timedelta_seconds (Finite 90) = Inr (Timedelta 90000000)"
  by (simp add: timedelta_seconds_def round_half_even_def Let_def)

lemma poll_Inr:
  assumes "poll net tagger geoip a = (es, Inr s)"
  shows "\<exists>calls i p r tgs loc sc.
           query_server net a = (calls, Inr (i, p, r)) \<and> tagger i p r = Inr tgs \<and>
           geoip (ip a) = Inr loc \<and> build_scores (players_entries p) = Inr sc \<and>
           s = make_status a i sc tgs loc \<and>
           es = LogPolling a # calls @ [TaggerEvaluate, GeoipCity (ip a)]"
  using assms by (auto simp: poll_def split: prod.splits sum.splits)

lemma example_query: "query_server example_net bob_address =
   ([GetInfo (querier_for bob_address), GetPlayers (querier_for bob_address),
     GetRules (querier_for bob_address)], Inr (bob_info, bob_players, []))"
  by (simp add: query_server_def example_net_def bob_address_def querier_for_def Let_def)

lemma bob_scores:
  "build_scores (players_entries bob_players) = Inr [(''Bob'', 5, Timedelta 90000000)]"
  by (simp add: bob_players_def timedelta_90)

lemma example_poll: "poll example_net example_tagger example_geoip bob_address =
   ([LogPolling bob_address, GetInfo (querier_for bob_address), GetPlayers (querier_for bob_address),
     GetRules (querier_for bob_address), TaggerEvaluate, GeoipCity ''192.0.2.1''], Inr bob_status)"
  by (simp add: poll_def example_query example_tagger_def example_geoip_def bob_scores
        make_status_def bob_status_def bob_info_def)
     (simp add: bob_address_def)


lemma poll_duration_refused:
  "query_server net a = (calls, Inr (i, p, r)) \<Longrightarrow> tagger i p r = Inr tgs \<Longrightarrow>
   geoip (ip a) = Inr loc \<Longrightarrow> build_scores (players_entries p) = Inl e \<Longrightarrow>
     snd (poll net tagger geoip a) = Inl (Uncaught e)"
  by (simp add: poll_def)

text \<open>
  Claim C2. Whenever \<open>poll\<close> returns a status, its \<open>players.scores\<close> are the player
  entries with a non-empty name, in order, each as name, score and the time span
  \<open>datetime.timedelta\<close> makes of its duration, and \<open>players.current\<close>, \<open>players.max\<close> and
  \<open>players.bots\<close> are the \<open>player_count\<close>, \<open>max_players\<close> and \<open>bot_count\<close> of the info
  response. \<open>poll\<close> does return a status whenever the three queries, the tagger and the
  location lookup succeed and \<open>datetime.timedelta\<close> accepts the duration of every named
  entry. A duration of 90 seconds is the span of 90 seconds, and the one player Bob with
  score 5 and that duration gives the scores \<open>[("Bob", 5, 90 s)]\<close>.
\<close>

theorem poll_players:
  "(poll net tagger geoip a = (es, Inr s) \<longrightarrow>
      (\<exists>calls i p r.
         query_server net a = (calls, Inr (i, p, r)) \<and>
         map (\<lambda>(n, sc, d). (n, sc, Inr d)) (scores (status_players s)) =
           map (\<lambda>e. (entry_name e, entry_score e, timedelta_seconds (entry_duration e)))
               (filter (\<lambda>e. entry_name e \<noteq> []) (players_entries p)) \<and>
         current (status_players s) = player_count i \<and>
         players_max (status_players s) = max_players i \<and>
         bots (status_players s) = bot_count i)) \<and>
   (query_server net a = (calls1, Inr (i1, p1, r1)) \<and> tagger i1 p1 r1 = Inr tgs \<and>
    geoip (ip a) = Inr loc \<and>
    list_all (\<lambda>e. entry_name e = [] \<or> \<not> isl (timedelta_seconds (entry_duration e)))
      (players_entries p1) \<longrightarrow>
      (\<exists>es1 s1. poll net tagger geoip a = (es1, Inr s1))) \<and>
   timedelta_seconds (Finite 90) = Inr (Timedelta 90000000) \<and>
   build_scores [\<lparr>entry_name = ''Bob'', entry_score = 5, entry_duration = Finite 90\<rparr>]
     = Inr [(''Bob'', 5, Timedelta 90000000)]"
proof (intro conjI impI)
  assume "poll net tagger geoip a = (es, Inr s)"
  from poll_Inr [OF this] obtain calls i p r tgs loc sc where
    q: "query_server net a = (calls, Inr (i, p, r))"
    and b: "build_scores (players_entries p) = Inr sc"
    and s: "s = make_status a i sc tgs loc"
    by blast
  show "\<exists>calls i p r.
         query_server net a = (calls, Inr (i, p, r)) \<and>
         map (\<lambda>(n, sc, d). (n, sc, Inr d)) (scores (status_players s)) =
           map (\<lambda>e. (entry_name e, entry_score e, timedelta_seconds (entry_duration e)))
               (filter (\<lambda>e. entry_name e \<noteq> []) (players_entries p)) \<and>
         current (status_players s) = player_count i \<and>
         players_max (status_players s) = max_players i \<and>
         bots (status_players s) = bot_count i"
    using q build_scores_Inr [OF b] by (simp add: s make_status_def)
next
  assume h: "query_server net a = (calls1, Inr (i1, p1, r1)) \<and> tagger i1 p1 r1 = Inr tgs \<and>
    geoip (ip a) = Inr loc \<and>
    list_all (\<lambda>e. entry_name e = [] \<or> \<not> isl (timedelta_seconds (entry_duration e)))
      (players_entries p1)"
  then obtain sc where "build_scores (players_entries p1) = Inr sc"
    using build_scores_total by blast
  with h show "\<exists>es1 s1. poll net tagger geoip a = (es1, Inr s1)"
    by (simp add: poll_def)
next
  show "timedelta_seconds (Finite 90) = Inr (Timedelta 90000000)"
    by (rule timedelta_90)
next
  show "build_scores [\<lparr>entry_name = ''Bob'', entry_score = 5, entry_duration = Finite 90\<rparr>]
     = Inr [(''Bob'', 5, Timedelta 90000000)]"
    by (simp add: timedelta_90)
qed

text \<open>
  The server with two entries, one without a name and Bob: the nameless entry is left
  out of the scores and still counted in \<open>players.current\<close>.
\<close>

theorem poll_players_witness:
  "poll example_net example_tagger example_geoip bob_address =
     ([LogPolling bob_address, GetInfo (querier_for bob_address),
       GetPlayers (querier_for bob_address), GetRules (querier_for bob_address),
       TaggerEvaluate, GeoipCity ''192.0.2.1''], Inr bob_status) \<and>
   query_server example_net bob_address =
     ([GetInfo (querier_for bob_address), GetPlayers (querier_for bob_address),
       GetRules (querier_for bob_address)], Inr (bob_info, bob_players, [])) \<and>
   example_tagger bob_info bob_players [] = Inr [''tf2''] \<and>
   example_geoip (ip bob_address) =
     Inr \<lparr>iso_code = Some ''GB'', loc_latitude = None, loc_longitude = None\<rparr> \<and>
   list_all (\<lambda>e. entry_name e = [] \<or> \<not> isl (timedelta_seconds (entry_duration e)))
     (players_entries bob_players) \<and>
   map entry_name (players_entries bob_players) = ['''', ''Bob''] \<and>
   scores (status_players bob_status) = [(''Bob'', 5, Timedelta 90000000)] \<and>
   current (status_players bob_status) = player_count bob_info \<and>
   players_max (status_players bob_status) = max_players bob_info \<and>
   bots (status_players bob_status) = bot_count bob_info"
proof -
  have h1: "poll example_net example_tagger example_geoip bob_address =
     ([LogPolling bob_address, GetInfo (querier_for bob_address),
       GetPlayers (querier_for bob_address), GetRules (querier_for bob_address),
       TaggerEvaluate, GeoipCity ''192.0.2.1''], Inr bob_status)"
    by (rule example_poll)
  have h2: "query_server example_net bob_address =
     ([GetInfo (querier_for bob_address), GetPlayers (querier_for bob_address),
       GetRules (querier_for bob_address)], Inr (bob_info, bob_players, []))"
    by (rule example_query)
  have h3: "example_tagger bob_info bob_players [] = Inr [''tf2'']"
    by (simp add: example_tagger_def)
  have h4: "example_geoip (ip bob_address) =
     Inr \<lparr>iso_code = Some ''GB'', loc_latitude = None, loc_longitude = None\<rparr>"
    by (simp add: example_geoip_def)
  have h5: "list_all (\<lambda>e. entry_name e = [] \<or> \<not> isl (timedelta_seconds (entry_duration e)))
     (players_entries bob_players)"
    by (simp add: bob_players_def timedelta_90)
  have b: "map entry_name (players_entries bob_players) = ['''', ''Bob'']"
    "scores (status_players bob_status) = [(''Bob'', 5, Timedelta 90000000)]"
    "current (status_players bob_status) = player_count bob_info"
    "players_max (status_players bob_status) = max_players bob_info"
    "bots (status_players bob_status) = bot_count bob_info"
    by (simp_all add: bob_status_def bob_info_def bob_players_def)
  show ?thesis
    using h1 h2 h3 h4 h5 b
      poll_players [of example_net example_tagger example_geoip bob_address
                       "[LogPolling bob_address, GetInfo (querier_for bob_address),
                         GetPlayers (querier_for bob_address),
                         GetRules (querier_for bob_address),
                         TaggerEvaluate, GeoipCity ''192.0.2.1'']"
                       bob_status]
    by blast
qed

lemma query_server_cases:
  "query_server net a =
     (case first_failure net (querier_for a) of
        Some e \<Rightarrow> (fst (query_server net a), Inl (query_except a e))
      | None \<Rightarrow> ([GetInfo (querier_for a), GetPlayers (querier_for a), GetRules (querier_for a)],
                 Inr (projr (get_info net (querier_for a)), projr (get_players net (querier_for a)),
                      projr (get_rules net (querier_for a)))))"
  by (simp add: query_server_def first_failure_def querier_for_def Let_def split: sum.splits)

lemma query_except_PollError:
  "(query_except a e = PollError k b) = (b = a \<and> failure_kind e = Some k)"
  by (cases e) auto

lemma poll_PollError_iff:
  "(snd (poll net tagger geoip a) = Inl (PollError k b)) =
   (b = a \<and> (\<exists>e. first_failure net (querier_for a) = Some e \<and> failure_kind e = Some k))"
  by (subst poll_def, subst query_server_cases)
     (auto simp: query_except_PollError split: option.splits sum.splits prod.splits)

lemma poll_effects_cases:
  "fst (poll net tagger geoip a) =
     (case first_failure net (querier_for a) of
        Some e \<Rightarrow> LogPolling a # fst (query_server net a)
      | None \<Rightarrow>
          LogPolling a # GetInfo (querier_for a) # GetPlayers (querier_for a)
            # GetRules (querier_for a) # TaggerEvaluate
            # (case tagger (projr (get_info net (querier_for a)))
                      (projr (get_players net (querier_for a)))
                      (projr (get_rules net (querier_for a))) of
                 Inl e \<Rightarrow> [] | Inr t \<Rightarrow> [GeoipCity (ip a)]))"
  by (subst poll_def, subst query_server_cases)
     (auto split: option.splits sum.splits prod.splits)

lemma query_effects_no_later:
  "TaggerEvaluate \<notin> set (fst (query_server net a))"
  "GeoipCity h \<notin> set (fst (query_server net a))"
  by (auto simp: query_server_def Let_def split: sum.splits)

text \<open>
  Claim C4. \<open>poll\<close> raises \<open>PollError\<close> of a kind exactly when the first of the three
  sub-queries that fails does so with the failure of that kind: no response in time
  (unreachable), compressed fragments (unsupported), a broken message (broken response).
  When it returns a status it has issued exactly the three sub-queries info, players and
  rules on a querier with a timeout of 5 seconds, then evaluated the tags and looked up
  the location; and the tagger or the location lookup is called only after all three
  sub-queries have succeeded.
\<close>

theorem poll_error_kinds:
  "((snd (poll net tagger geoip a) = Inl (PollError k b)) =
      (b = a \<and> (\<exists>e. first_failure net (querier_for a) = Some e \<and> failure_kind e = Some k))) \<and>
   (snd (poll net tagger geoip a) = Inr s \<longrightarrow>
      fst (poll net tagger geoip a) =
        [LogPolling a, GetInfo (querier_for a), GetPlayers (querier_for a),
         GetRules (querier_for a), TaggerEvaluate, GeoipCity (ip a)] \<and>
      q_timeout (querier_for a) = 5) \<and>
   (TaggerEvaluate \<in> set (fst (poll net tagger geoip a)) \<or>
    GeoipCity h \<in> set (fst (poll net tagger geoip a)) \<longrightarrow>
      first_failure net (querier_for a) = None \<and>
      take 4 (fst (poll net tagger geoip a)) =
        [LogPolling a, GetInfo (querier_for a), GetPlayers (querier_for a),
         GetRules (querier_for a)])"
proof (intro conjI)
  show "(snd (poll net tagger geoip a) = Inl (PollError k b)) =
     (b = a \<and> (\<exists>e. first_failure net (querier_for a) = Some e \<and> failure_kind e = Some k))"
    by (rule poll_PollError_iff)
next
  show "snd (poll net tagger geoip a) = Inr s \<longrightarrow>
     fst (poll net tagger geoip a) =
       [LogPolling a, GetInfo (querier_for a), GetPlayers (querier_for a),
        GetRules (querier_for a), TaggerEvaluate, GeoipCity (ip a)] \<and>
     q_timeout (querier_for a) = 5"
  proof
    assume "snd (poll net tagger geoip a) = Inr s"
    then have "poll net tagger geoip a = (fst (poll net tagger geoip a), Inr s)"
      by (metis prod.collapse)
    from poll_Inr [OF this] obtain calls i p r where
      q: "query_server net a = (calls, Inr (i, p, r))"
      and es: "fst (poll net tagger geoip a) = LogPolling a # calls @ [TaggerEvaluate, GeoipCity (ip a)]"
      by blast
    from q have "calls = [GetInfo (querier_for a), GetPlayers (querier_for a), GetRules (querier_for a)]"
      by (auto simp: query_server_def querier_for_def Let_def split: sum.splits)
    with es show "fst (poll net tagger geoip a) =
       [LogPolling a, GetInfo (querier_for a), GetPlayers (querier_for a),
        GetRules (querier_for a), TaggerEvaluate, GeoipCity (ip a)] \<and>
     q_timeout (querier_for a) = 5"
      by (simp add: querier_for_def)
  qed
next
  show "TaggerEvaluate \<in> set (fst (poll net tagger geoip a)) \<or>
   GeoipCity h \<in> set (fst (poll net tagger geoip a)) \<longrightarrow>
     first_failure net (querier_for a) = None \<and>
     take 4 (fst (poll net tagger geoip a)) =
       [LogPolling a, GetInfo (querier_for a), GetPlayers (querier_for a),
        GetRules (querier_for a)]"
    using query_effects_no_later
    by (subst (1 2 3) poll_effects_cases) (auto split: option.splits sum.splits)
qed

text \<open>The server that answers, as an instance.\<close>

theorem poll_error_kinds_witness:
  "snd (poll example_net example_tagger example_geoip bob_address) = Inr bob_status \<and>
   TaggerEvaluate \<in> set (fst (poll example_net example_tagger example_geoip bob_address)) \<and>
   fst (poll example_net example_tagger example_geoip bob_address) =
     [LogPolling bob_address, GetInfo (querier_for bob_address),
      GetPlayers (querier_for bob_address), GetRules (querier_for bob_address),
      TaggerEvaluate, GeoipCity (ip bob_address)] \<and>
   q_timeout (querier_for bob_address) = 5 \<and>
   first_failure example_net (querier_for bob_address) = None"
proof -
  have h1: "snd (poll example_net example_tagger example_geoip bob_address) = Inr bob_status"
    by (simp add: example_poll)
  have h2: "TaggerEvaluate \<in> set (fst (poll example_net example_tagger example_geoip bob_address))"
    by (simp add: example_poll)
  show ?thesis
    using h1 h2
      poll_error_kinds [of example_net example_tagger example_geoip bob_address
                           Unreachable bob_address bob_status "''192.0.2.1''"]
    by blast
qed

subsection \<open>The scheduler\<close>


















lemma for_addresses_step:
  "for_addresses net tagger geoip w (a # as) wd =
     (case watch_body net tagger geoip w a wd of
        (Some e, wd1) \<Rightarrow> (Some e, wd1)
      | (None, wd1) \<Rightarrow> for_addresses net tagger geoip w as wd1)"
  by simp












text \<open>
  Claim C8, at the failing input: \<open>geoip2.database.Reader\<close> raises
  \<open>InvalidDatabaseError\<close>. The \<open>except\<close> clause raises \<open>FatalError\<close>, the \<open>finally\<close>
  clause then reads the unbound \<open>geoip\<close>, and what leaves \<open>_poller_main\<close> is
  \<open>UnboundLocalError\<close>, not \<open>FatalError\<close>. No connection to the cache has been opened.
\<close>

theorem poller_main_invalid_database:
  "poller_main example_net example_tagger invalid_reader example_args [[bob_address]] empty_world =
     (Raised (UnboundLocalError ''geoip''),
      \<lparr>interest_queue = [], statuses = [], connections = 0,
       trace = [LogInfo ''Starting poller'', LogInfo ''Loading geoip database from %s'',
                GeoipOpen ''GeoLite2-City.mmdb'']\<rparr>)"
  by (simp add: poller_main_def finally_close_def invalid_reader_def example_args_def
                empty_world_def emit_def)

section \<open>Properties of the websocket service\<close>

subsection \<open>The address converter\<close>

text \<open>
  Claim C10. The converter \<open>address\<close> hands the values of the validated dictionary to
  \<open>Address\<close> in the dictionary's order. Both orders of the keys are accepted by the
  schema: with \<open>ip\<close> first the call is \<open>Address(ip, port)\<close>, with \<open>port\<close> first the
  two arguments are swapped.
\<close>

theorem address_positional:
  "schema_mapping address_schema (JObj [(''ip'', JStr i), (''port'', JInt p)])
     = Inr [(''ip'', JStr i), (''port'', JInt p)] \<and>
   address_of lib (JObj [(''ip'', JStr i), (''port'', JInt p)]) = Address lib (JStr i) (JInt p) \<and>
   schema_mapping address_schema (JObj [(''port'', JInt p), (''ip'', JStr i)])
     = Inr [(''port'', JInt p), (''ip'', JStr i)] \<and>
   address_of lib (JObj [(''port'', JInt p), (''ip'', JStr i)]) = Address lib (JInt p) (JStr i)"
  by (simp add: address_of_def schema_mapping_def address_schema_def missing_keys_def)

subsection \<open>Delivery order\<close>

lemma write_step_keeps:
  "write_step c = Some c1 \<Longrightarrow>
     websocket_sent c1 @ send_queue c1 = websocket_sent c @ send_queue c"
  by (auto simp: write_step_def split: list.splits)

lemma run_actions_order:
  "websocket_sent (run_actions lib acts c) @ send_queue (run_actions lib acts c)
     = websocket_sent c @ send_queue c @ map (dumps lib) (sent_envelopes acts)"
proof (induction acts arbitrary: c)
  case Nil
  then show ?case by simp
next
  case (Cons act acts)
  show ?case
  proof (cases act)
    case (Send type entity)
    then show ?thesis
      using Cons.IH [of "send lib c type entity"] by (simp add: send_def)
  next
    case Write
    show ?thesis
    proof (cases "write_step c")
      case None
      then show ?thesis using Write Cons.IH [of c] by simp
    next
      case (Some c1)
      then show ?thesis
        using Write Cons.IH [of c1] write_step_keeps [OF Some] by simp
    qed
  qed
qed

lemma write_loop_flushes:
  "send_queue c = q \<Longrightarrow>
     websocket_sent (write_loop c) = websocket_sent c @ q \<and> send_queue (write_loop c) = []"
proof (induction q arbitrary: c)
  case Nil
  then show ?case
    using write_loop.simps [of c] by (simp add: write_step_def)
next
  case (Cons m q)
  define c1 where "c1 = c\<lparr>send_queue := q, websocket_sent := websocket_sent c @ [m]\<rparr>"
  have step: "write_step c = Some c1"
    using Cons.prems by (simp add: write_step_def c1_def)
  have "send_queue c1 = q" by (simp add: c1_def)
  from Cons.IH [OF this] have
    "websocket_sent (write_loop c1) = websocket_sent c1 @ q \<and> send_queue (write_loop c1) = []" .
  moreover have "write_loop c = write_loop c1"
    using write_loop.simps [of c] step by simp
  ultimately show ?case by (simp add: c1_def)
qed

text \<open>
  Claim C7. \<open>send\<close> changes nothing but the queue, at whose end it puts the serialised
  envelope. Along any schedule of calls of \<open>send\<close> and turns of the write duty, the frames
  written so far followed by the queue are what was there at the start followed by the
  envelopes sent, in the order of the calls; once the write duty has run until it is
  suspended, the queue is empty and the frames written are exactly those.
\<close>

theorem send_fifo:
  "send lib c type entity
     = c\<lparr>send_queue := send_queue c @ [dumps lib (envelope type entity)]\<rparr> \<and>
   websocket_sent (run_actions lib acts c) @ send_queue (run_actions lib acts c)
     = websocket_sent c @ send_queue c @ map (dumps lib) (sent_envelopes acts) \<and>
   websocket_sent (write_loop (run_actions lib acts c))
     = websocket_sent c @ send_queue c @ map (dumps lib) (sent_envelopes acts) \<and>
   send_queue (write_loop (run_actions lib acts c)) = []"
  using write_loop_flushes [OF refl, of "run_actions lib acts c"]
        run_actions_order [of lib acts c]
  by (simp add: send_def)

subsection \<open>Dispatch\<close>









subsection \<open>Reading and dispatching\<close>

lemma example_loads_nested:
  "example_loads nested_frame = Inl (OtherException ''RecursionError'')"
  by (simp add: example_loads_def nested_frame_def list_all_iff)

lemma example_dispatch_nested:
  "dispatch example_lib c nested_frame = Inl (Uncaught (OtherException ''RecursionError''))"
  by (simp add: dispatch_def example_lib_def example_loads_nested)

lemma example_dispatch_subscribe:
  "dispatch example_lib c ''subscribe frame''
     = Inr (log_append (LogNewSubscription bob_address) c)"
  by (simp add: dispatch_def example_lib_def example_loads_def schema_mapping_def
        envelope_schema_def missing_keys_def handler_def handle_subscribe_def validate_def
        schema_callable_def address_of_def address_schema_def handle_subscribe_body_def
        bob_address_def)

lemma example_read_nested:
  "read_step example_lib c (Some nested_frame) =
     Goes_on (log_append
                (LogErrorHandling nested_frame (Uncaught (OtherException ''RecursionError''))) c)"
  by (simp add: read_step_def example_dispatch_nested)











text \<open>
  Claim C6 fails on the code. At the frame of 200000 opening brackets \<open>_dispatch\<close>
  raises \<open>RecursionError\<close>, an exception other than \<open>MessageError\<close>, and yet the read duty
  does not end and the session is not closed: the subscription that follows is handled
  and \<open>process\<close> is still waiting.
\<close>

theorem unexpected_error_counterexample:
  "dispatch example_lib example_client nested_frame
     = Inl (Uncaught (OtherException ''RecursionError'')) \<and>
   \<not> is_MessageError (Uncaught (OtherException ''RecursionError'')) \<and>
   read_step example_lib example_client (Some nested_frame) \<noteq> Returns \<and>
   read_step example_lib example_client (Some nested_frame)
     \<noteq> Raises (Uncaught (OtherException ''RecursionError'')) \<and>
   process example_lib [Received (Some nested_frame), Received (Some ''subscribe frame'')]
       example_client =
     (OPEN,
      \<lparr>websocket = 1, client_cache = Cache 0, subscriptions = [], send_queue = [],
       websocket_sent = [],
       logged = [LogHandlingSocket,
                 LogErrorHandling nested_frame (Uncaught (OtherException ''RecursionError'')),
                 LogNewSubscription bob_address]\<rparr>)"
  by (simp add: process_def example_read_nested read_step_def example_dispatch_nested
        example_dispatch_subscribe log_append_def example_client_def client_init_def)

text \<open>
  Claim C6, amended. When \<open>_dispatch\<close> raises an exception that derives from
  \<open>Exception\<close> and is not \<open>MessageError\<close>, \<open>_read\<close> logs it and its loop goes on with the
  next frame: the read duty does not end and the session stays open.
\<close>

theorem unexpected_error_logged:
  assumes "dispatch lib c raw = Inl e" and "is_Exception e" and "\<not> is_MessageError e"
  shows "\<exists>c1. read_step lib c (Some raw) = Goes_on c1 \<and>
              logged c1 = logged c @ [LogErrorHandling raw e] \<and>
              run_duties lib (Received (Some raw) # events) c = run_duties lib events c1 \<and>
              run_duties lib [Received (Some raw)] c = (OPEN, c1)"
proof -
  have "read_step lib c (Some raw) = Goes_on (log_append (LogErrorHandling raw e) c)"
    using assms by (cases e) (simp_all add: read_step_def)
  then show ?thesis by (simp add: log_append_def)
qed

text \<open>The frame at which \<open>json.loads\<close> raises \<open>RecursionError\<close>.\<close>

theorem unexpected_error_logged_witness:
  "dispatch example_lib example_client nested_frame
     = Inl (Uncaught (OtherException ''RecursionError'')) \<and>
   is_Exception (Uncaught (OtherException ''RecursionError'')) \<and>
   \<not> is_MessageError (Uncaught (OtherException ''RecursionError'')) \<and>
   (\<exists>c1. read_step example_lib example_client (Some nested_frame) = Goes_on c1 \<and>
         logged c1 = logged example_client
                     @ [LogErrorHandling nested_frame
                          (Uncaught (OtherException ''RecursionError''))] \<and>
         run_duties example_lib [Received (Some nested_frame)] example_client = (OPEN, c1))"
proof -
  have h1: "dispatch example_lib example_client nested_frame
              = Inl (Uncaught (OtherException ''RecursionError''))"
    by (rule example_dispatch_nested)
  have h2: "is_Exception (Uncaught (OtherException ''RecursionError''))"
    by simp
  have h3: "\<not> is_MessageError (Uncaught (OtherException ''RecursionError''))"
    by simp
  show ?thesis
    using h1 h2 h3 unexpected_error_logged [OF h1 h2 h3, of "[]"] by blast
qed

text \<open>
  An exception that does not derive from \<open>Exception\<close> is not caught: it leaves \<open>_read\<close>
  and \<open>process\<close>.
\<close>

lemma interrupt_leaves_read:
  "read_step interrupted_lib example_client (Some ''frame at the interrupt'')
     = Raises (Uncaught (OtherBaseException ''KeyboardInterrupt'')) \<and>
   fst (process interrupted_lib [Received (Some ''frame at the interrupt'')] example_client)
     = RAISED (Uncaught (OtherBaseException ''KeyboardInterrupt''))"
  by (simp add: process_def read_step_def dispatch_def interrupted_lib_def)

subsection \<open>Accepting connections\<close>

lemma handler_keeps:
  "handler lib t = Some h \<Longrightarrow> h c entity = Inr c1 \<Longrightarrow>
     websocket c1 = websocket c \<and> client_cache c1 = client_cache c"
  by (auto simp: handler_def handle_subscribe_def validate_def handle_subscribe_body_def
        log_append_def
      split: if_splits sum.splits lib_error.splits)

lemma dispatch_Inr:
  assumes "dispatch lib c raw = Inr c1"
  shows "\<exists>t h entity. handler lib t = Some h \<and> h c entity = Inr c1"
proof (cases "loads lib raw")
  case (Inl e)
  with assms show ?thesis by (cases e) (simp_all add: dispatch_def)
next
  case (Inr message)
  note l = this
  show ?thesis
  proof (cases "schema_mapping envelope_schema message")
    case (Inl e)
    with assms l show ?thesis by (cases e) (simp_all add: dispatch_def)
  next
    case (Inr items)
    note s = this
    show ?thesis
    proof (cases "map_of items ''type''")
      case None
      with assms l s show ?thesis by (simp add: dispatch_def)
    next
      case (Some v)
      note ty = this
      show ?thesis
      proof (cases "map_of items ''entity''")
        case None
        with assms l s ty show ?thesis by (cases v) (simp_all add: dispatch_def)
      next
        case (Some entity)
        note en = this
        show ?thesis
        proof (cases v)
          case (JStr t)
          show ?thesis
          proof (cases "handler lib t")
            case None
            with assms l s ty en JStr show ?thesis by (simp add: dispatch_def)
          next
            case (Some h)
            with assms l s ty en JStr have "h c entity = Inr c1"
              by (simp add: dispatch_def)
            with Some show ?thesis by blast
          qed
        qed (use assms l s ty en in \<open>simp_all add: dispatch_def\<close>)
      qed
    qed
  qed
qed

lemma dispatch_keeps:
  assumes "dispatch lib c raw = Inr c1"
  shows "websocket c1 = websocket c \<and> client_cache c1 = client_cache c"
proof -
  from dispatch_Inr [OF assms] obtain t h entity where
    "handler lib t = Some h" "h c entity = Inr c1" by blast
  then show ?thesis by (rule handler_keeps)
qed

lemma read_step_keeps:
  assumes "read_step lib c received = Goes_on c1"
  shows "websocket c1 = websocket c \<and> client_cache c1 = client_cache c"
proof (cases received)
  case None
  with assms show ?thesis by (simp add: read_step_def)
next
  case (Some raw)
  show ?thesis
  proof (cases "dispatch lib c raw")
    case (Inl e)
    with assms Some show ?thesis
      by (cases e) (auto simp: read_step_def send_def log_append_def split: if_splits)
  next
    case (Inr c2)
    with assms Some have "c1 = c2" by (simp add: read_step_def)
    with dispatch_keeps [OF Inr] show ?thesis by simp
  qed
qed

lemma write_step_fields:
  "write_step c = Some c1 \<Longrightarrow>
     websocket c1 = websocket c \<and> client_cache c1 = client_cache c"
  by (auto simp: write_step_def split: list.splits)

lemma run_duties_keeps:
  "websocket (snd (run_duties lib events c)) = websocket c \<and>
   client_cache (snd (run_duties lib events c)) = client_cache c"
proof (induction lib events c rule: run_duties.induct)
  case (1 lib c)
  then show ?case by simp
next
  case (2 lib received events c)
  show ?case
  proof (cases "read_step lib c received")
    case Returns
    then show ?thesis by (simp add: log_append_def)
  next
    case (Raises e)
    then show ?thesis by (simp add: log_append_def)
  next
    case (Goes_on c1)
    with "2.IH" [OF Goes_on] read_step_keeps [OF Goes_on] show ?thesis by simp
  qed
next
  case (3 lib events c)
  show ?case
  proof (cases "write_step c")
    case None
    with "3.IH"(1) show ?thesis by simp
  next
    case (Some c1)
    with "3.IH"(2) [OF Some] write_step_fields [OF Some] show ?thesis by simp
  qed
qed

text \<open>
  Claim C9. On a path other than \<open>PATH\<close> the service logs and returns at once, and no
  client is made. On \<open>PATH\<close> it makes one client with \<open>Client(websocket, cache)\<close>, fresh
  and bound to the websocket and to the service's cache, and runs \<open>process\<close> on it; the
  client of the session is that client as \<open>process\<close> leaves it, still bound to the same
  websocket and cache.
\<close>

theorem service_call_path:
  "(path \<noteq> PATH \<longrightarrow>
      service_call lib service_cache ws path events = Dropped (LogDropping path)) \<and>
   (\<exists>st c. service_call lib service_cache ws PATH events = Session st c \<and>
           st = fst (process lib events (client_init ws service_cache)) \<and>
           c = (if st = CLOSED
                then log_append LogConnectionClosed
                       (snd (process lib events (client_init ws service_cache)))
                else snd (process lib events (client_init ws service_cache))) \<and>
           client_cache c = service_cache \<and> websocket c = ws) \<and>
   client_init ws service_cache =
     \<lparr>websocket = ws, client_cache = service_cache, subscriptions = [], send_queue = [],
      websocket_sent = [], logged = []\<rparr>"
proof (intro conjI impI)
  assume "path \<noteq> PATH"
  then show "service_call lib service_cache ws path events = Dropped (LogDropping path)"
    by (simp add: service_call_def)
next
  obtain st c0 where p: "process lib events (client_init ws service_cache) = (st, c0)"
    by (cases "process lib events (client_init ws service_cache)")
  have "websocket c0 = ws \<and> client_cache c0 = service_cache"
    using run_duties_keeps [of lib events "log_append LogHandlingSocket (client_init ws service_cache)"] p
    by (simp add: process_def log_append_def client_init_def)
  then show "\<exists>st c. service_call lib service_cache ws PATH events = Session st c \<and>
           st = fst (process lib events (client_init ws service_cache)) \<and>
           c = (if st = CLOSED
                then log_append LogConnectionClosed
                       (snd (process lib events (client_init ws service_cache)))
                else snd (process lib events (client_init ws service_cache))) \<and>
           client_cache c = service_cache \<and> websocket c = ws"
    using p by (cases st) (simp_all add: service_call_def log_append_def)
next
  show "client_init ws service_cache =
     \<lparr>websocket = ws, client_cache = service_cache, subscriptions = [], send_queue = [],
      websocket_sent = [], logged = []\<rparr>"
    by (simp add: client_init_def)
qed

text \<open>A connection on \<open>/ws\<close> is dropped; one on \<open>/\<close> is served until the peer disconnects.\<close>

theorem service_call_path_witness:
  "''/ws'' \<noteq> PATH \<and>
   service_call example_lib (Cache 0) 1 ''/ws'' [Received (Some ''subscribe frame'')]
     = Dropped (LogDropping ''/ws'') \<and>
   service_call example_lib (Cache 0) 1 ''/'' [Received (Some ''subscribe frame''), Received None]
     = Session CLOSED
         \<lparr>websocket = 1, client_cache = Cache 0, subscriptions = [], send_queue = [],
          websocket_sent = [],
          logged = [LogHandlingSocket, LogNewSubscription bob_address, LogSocketFinished,
                    LogConnectionClosed]\<rparr>"
proof -
  have h: "''/ws'' \<noteq> PATH" by (simp add: PATH_def)
  have s: "service_call example_lib (Cache 0) 1 ''/''
             [Received (Some ''subscribe frame''), Received None]
     = Session CLOSED
         \<lparr>websocket = 1, client_cache = Cache 0, subscriptions = [], send_queue = [],
          websocket_sent = [],
          logged = [LogHandlingSocket, LogNewSubscription bob_address, LogSocketFinished,
                    LogConnectionClosed]\<rparr>"
    by (simp add: service_call_def PATH_def process_def read_step_def
          example_dispatch_subscribe log_append_def client_init_def)
  show ?thesis
    using h s
      service_call_path [of "''/ws''" example_lib "Cache 0" 1
                            "[Received (Some ''subscribe frame'')]", THEN conjunct1]
    by simp
qed

end
